theory Spec2Isabelle
  imports Complex_Main
begin

section \<open>Python strings\<close>

text \<open>
  A Python \<open>str\<close> is modelled as a \<open>string\<close>, one \<open>char\<close> for one code point, so that
  \<open>len\<close> is \<open>length\<close>: the development covers the texts whose code points are below 256.
\<close>

definition py_isspace :: "char \<Rightarrow> bool" where
  \<comment> \<open>the characters below 256 that \<open>str.strip()\<close> removes: TAB, LF, VT, FF, CR, FS, GS, RS,
      US, SPACE, NEL (U+0085) and the no-break space (U+00A0)\<close>
  "py_isspace c = (c \<in> set [CHR 0x09, CHR 0x0A, CHR 0x0B, CHR 0x0C, CHR 0x0D,
                               CHR 0x1C, CHR 0x1D, CHR 0x1E, CHR 0x1F, CHR 0x20,
                               CHR 0x85, CHR 0xA0])"

definition strip :: "string \<Rightarrow> string" where
  "strip s = rev (dropWhile py_isspace (rev (dropWhile py_isspace s)))"

definition lower_char :: "char \<Rightarrow> char" where
  \<comment> \<open>\<open>str.lower\<close> below 256: the letters A to Z, and the Latin-1 capitals U+00C0 to U+00DE
      without the multiplication sign U+00D7\<close>
  "lower_char c =
     (let n = (of_char c :: nat)
      in if (65 \<le> n \<and> n \<le> 90) \<or> (192 \<le> n \<and> n \<le> 222 \<and> n \<noteq> 215)
         then char_of (n + 32) else c)"

definition ascii_lower_char :: "char \<Rightarrow> char" where
  \<comment> \<open>the case folding of SQLite's \<open>LIKE\<close>: the letters A to Z only\<close>
  "ascii_lower_char c =
     (let n = (of_char c :: nat) in if 65 \<le> n \<and> n \<le> 90 then char_of (n + 32) else c)"

definition lower :: "string \<Rightarrow> string" where
  "lower s = map lower_char s"

fun startswith :: "string \<Rightarrow> string \<Rightarrow> bool" where
  "startswith s [] = True"
| "startswith [] (p # ps) = False"
| "startswith (c # cs) (p # ps) = (c = p \<and> startswith cs ps)"

fun contains :: "string \<Rightarrow> string \<Rightarrow> bool" where
  \<comment> \<open>\<open>contains s sub\<close> is Python's \<open>sub in s\<close>\<close>
  "contains [] sub = (sub = [])"
| "contains (c # cs) sub = (startswith (c # cs) sub \<or> contains cs sub)"

section \<open>Exceptions\<close>

text \<open>
  The exception classes that reach the request handler, each with its \<open>str(e)\<close>.
  \<open>JSONDecodeError\<close> and pydantic's \<open>ValidationError\<close> (version 2) are subclasses of
  \<open>ValueError\<close>; SQLAlchemy's \<open>OperationalError\<close> is neither a \<open>ValueError\<close> nor a
  \<open>RuntimeError\<close>;
  \<open>OtherError\<close> stands for any class that is neither a \<open>ValueError\<close> nor a
  \<open>RuntimeError\<close>.
\<close>

datatype exn =
    ValueError string
  | JSONDecodeError string
  | ValidationError string
  | RuntimeError string
  | TypeError string
  | OperationalError string
  | OtherError string

fun str_exn :: "exn \<Rightarrow> string" where
  "str_exn (ValueError m) = m"
| "str_exn (JSONDecodeError m) = m"
| "str_exn (ValidationError m) = m"
| "str_exn (RuntimeError m) = m"
| "str_exn (TypeError m) = m"
| "str_exn (OperationalError m) = m"
| "str_exn (OtherError m) = m"

fun is_ValueError :: "exn \<Rightarrow> bool" where
  \<comment> \<open>what \<open>except ValueError\<close> catches\<close>
  "is_ValueError (ValueError m) = True"
| "is_ValueError (JSONDecodeError m) = True"
| "is_ValueError (ValidationError m) = True"
| "is_ValueError e = False"

fun is_RuntimeError :: "exn \<Rightarrow> bool" where
  \<comment> \<open>what \<open>except RuntimeError\<close> catches\<close>
  "is_RuntimeError (RuntimeError m) = True"
| "is_RuntimeError e = False"

section \<open>Keyword extractor (nlp_service.py)\<close>

text \<open>
  A spaCy token, with the attributes \<open>extract_keywords\<close> reads: \<open>text\<close>, \<open>lemma_\<close>,
  \<open>pos_\<close>, \<open>is_stop\<close>, \<open>is_punct\<close>, \<open>is_alpha\<close>. The tagger \<open>nlp\<close> is a parameter:
  it maps a text to its tokens, or raises.
\<close>

record token =
  tok_text :: string
  tok_lemma :: string
  tok_pos :: string
  is_stop :: bool
  is_punct :: bool
  is_alpha :: bool

definition keep_token :: "token \<Rightarrow> bool" where
  \<comment> \<open>the condition of the list comprehension\<close>
  "keep_token t =
     (tok_pos t \<in> set [''NOUN'', ''PROPN'']
      \<and> \<not> is_stop t
      \<and> \<not> is_punct t
      \<and> length (tok_text t) > 2
      \<and> is_alpha t)"

definition nouns_of :: "token list \<Rightarrow> string list" where
  "nouns_of doc = map tok_lemma (filter keep_token doc)"

text \<open>
  \<open>collections.Counter\<close>: a dict from element to count, in insertion order. Counting an
  iterable adds one to the entry of each element in turn; a new key goes to the end.
\<close>

type_synonym counter = "(string \<times> nat) list"

fun counter_incr :: "string \<Rightarrow> counter \<Rightarrow> counter" where
  "counter_incr w [] = [(w, 1)]"
| "counter_incr w ((k, c) # rest) =
     (if k = w then (k, c + 1) # rest else (k, c) # counter_incr w rest)"

definition Counter :: "string list \<Rightarrow> counter" where
  "Counter ws = foldl (\<lambda>c w. counter_incr w c) [] ws"

definition counter_get :: "counter \<Rightarrow> string \<Rightarrow> nat" where
  \<comment> \<open>\<open>c[w]\<close>: a missing key counts 0\<close>
  "counter_get c w = (case map_of c w of None \<Rightarrow> 0 | Some k \<Rightarrow> k)"

definition most_common :: "int \<Rightarrow> counter \<Rightarrow> (string \<times> nat) list" where
  \<comment> \<open>\<open>heapq.nlargest(n, items, key=count)\<close>, that is the first \<open>n\<close> items of
      \<open>sorted(items, key=count, reverse=True)\<close>: a stable sort, by descending count;
      no item for \<open>n \<le> 0\<close>\<close>
  "most_common n c = take (nat n) (sort_key (\<lambda>(w, k). - int k) c)"

definition extract_keywords :: "(string \<Rightarrow> exn + token list) \<Rightarrow> string \<Rightarrow> int \<Rightarrow> exn + string list" where
  "extract_keywords nlp text top_n =
     (if text = [] \<or> strip text = [] then Inr []
      else case nlp (lower text) of
             Inl e \<Rightarrow> Inl e
           | Inr doc \<Rightarrow>
               (let nouns = nouns_of doc in
                if nouns = [] then Inr []
                else Inr (map fst (most_common top_n (Counter nouns)))))"

definition first_seen :: "string list \<Rightarrow> string \<Rightarrow> nat" where
  \<comment> \<open>the position of the first occurrence of \<open>w\<close> in the filtered token stream\<close>
  "first_seen ws w = length (takeWhile (\<lambda>x. x \<noteq> w) ws)"

section \<open>Metadata extractor (llm_service.py)\<close>

text \<open>The value \<open>json.loads\<close> returns: None, bool, int, float, str, list or dict.\<close>

datatype json =
    JNull
  | JBool bool
  | JInt int
  | JFloat real
  | JStr string
  | JArr "json list"
  | JObj "(string \<times> json) list"

fun py_type_name :: "json \<Rightarrow> string" where
  "py_type_name JNull = ''NoneType''"
| "py_type_name (JBool b) = ''bool''"
| "py_type_name (JInt i) = ''int''"
| "py_type_name (JFloat r) = ''float''"
| "py_type_name (JStr s) = ''str''"
| "py_type_name (JArr xs) = ''list''"
| "py_type_name (JObj kvs) = ''dict''"

text \<open>
  The pydantic model \<open>ExtractedMetadata\<close>: five required fields, of types \<open>str\<close>,
  \<open>Optional[str]\<close>, \<open>List[str]\<close>, \<open>str\<close> and \<open>float\<close>, with no other constraint.
  Fields are prefixed \<open>m_\<close> here, those of \<open>AnalysisResponse\<close> \<open>r_\<close>; the columns of
  the table keep their names.
\<close>

record ExtractedMetadata =
  m_summary :: string
  m_title :: "string option"
  m_topics :: "string list"
  m_sentiment :: string
  m_confidence :: real

text \<open>
  What the code calls and does not define: the tagger, the model call
  (\<open>self.extract(text=text).metadata\<close>), \<open>json.loads\<close> (\<open>Inl m\<close> is a
  \<open>JSONDecodeError\<close> whose \<open>str\<close> is \<open>m\<close>), the conversions behind pydantic's float
  fields (of a numeric string, and of an integer to the nearest float, if there is one),
  the text of a pydantic \<open>ValidationError\<close>, the candidates SQLite draws at random for
  an identifier once the largest one is in use, and the text of the error of a refused
  insert. A float is modelled by its value, a real number: \<open>JFloat\<close> holds a finite
  float, and the literals \<open>NaN\<close> and \<open>Infinity\<close> are not covered.
\<close>

record env =
  nlp :: "string \<Rightarrow> exn + token list"
  llm_extract :: "string \<Rightarrow> exn + string"
  json_loads :: "string \<Rightarrow> string + json"
  float_of_str :: "string \<Rightarrow> real option"
  float_of_int :: "int \<Rightarrow> real option"
  validation_error_str :: "json \<Rightarrow> string"
  random_rowids :: "int list \<Rightarrow> int list"
  operational_error_str :: string

fun str_field :: "json option \<Rightarrow> string option" where
  "str_field (Some (JStr s)) = Some s"
| "str_field v = None"

fun opt_str_field :: "json option \<Rightarrow> string option option" where
  "opt_str_field (Some (JStr s)) = Some (Some s)"
| "opt_str_field (Some JNull) = Some None"
| "opt_str_field v = None"

fun list_str_field :: "json option \<Rightarrow> string list option" where
  "list_str_field (Some (JArr xs)) = those (map (\<lambda>x. str_field (Some x)) xs)"
| "list_str_field v = None"

fun float_field :: "env \<Rightarrow> json option \<Rightarrow> real option" where
  \<comment> \<open>pydantic's lax mode: a float, an integer that converts to a float, a bool, or a
      string that parses as a float\<close>
  "float_field env (Some (JFloat r)) = Some r"
| "float_field env (Some (JInt i)) = float_of_int env i"
| "float_field env (Some (JBool b)) = Some (if b then 1 else 0)"
| "float_field env (Some (JStr s)) = float_of_str env s"
| "float_field env v = None"

definition ExtractedMetadata_init :: "env \<Rightarrow> json \<Rightarrow> exn + ExtractedMetadata" where
  \<comment> \<open>\<open>ExtractedMetadata(**metadata_dict)\<close>; keys that are no field are ignored\<close>
  "ExtractedMetadata_init env d =
     (case d of
        JObj kvs \<Rightarrow>
          (case (str_field (map_of kvs ''summary''),
                 opt_str_field (map_of kvs ''title''),
                 list_str_field (map_of kvs ''topics''),
                 str_field (map_of kvs ''sentiment''),
                 float_field env (map_of kvs ''confidence'')) of
             (Some s, Some t, Some ts, Some se, Some c) \<Rightarrow>
               Inr \<lparr>m_summary = s, m_title = t, m_topics = ts, m_sentiment = se, m_confidence = c\<rparr>
           | _ \<Rightarrow> Inl (ValidationError (validation_error_str env d)))
      | _ \<Rightarrow> Inl (TypeError
                  (''app.services.llm_service.ExtractedMetadata() argument after ** must be a mapping, not ''
                   @ py_type_name d)))"

definition forward :: "env \<Rightarrow> string \<Rightarrow> exn + ExtractedMetadata" where
  "forward env text =
     (if text = [] \<or> strip text = [] then Inl (ValueError ''Text cannot be empty'')
      else case llm_extract env text of
             Inl e \<Rightarrow> Inl e
           | Inr metadata \<Rightarrow>
               (case json_loads env metadata of
                  Inl m \<Rightarrow> Inl (ValueError (''Failed to parse LLM response as JSON: '' @ m))
                | Inr metadata_dict \<Rightarrow> ExtractedMetadata_init env metadata_dict))"

section \<open>Record store (database.py)\<close>

text \<open>
  A row of table \<open>analyses\<close>. \<open>topics\<close> and \<open>keywords_col\<close> hold the \<open>json.dumps\<close> text.
  \<open>confidence\<close> holds \<open>str(x)\<close> and is read back with \<open>float\<close>, which returns \<open>x\<close> for
  every float \<open>x\<close>: the row keeps the number. \<open>row_id\<close> is the column \<open>id\<close>,
  \<open>keywords_col\<close> the column \<open>keywords\<close>.
\<close>

record Analysis =
  row_id :: int
  raw_text :: string
  summary :: string
  title :: "string option"
  topics :: string
  sentiment :: string
  keywords_col :: string
  confidence :: real
  created_at :: int

text \<open>
  The application state: whether \<open>_analyzer\<close> is set, and the rows of the table in
  the order of their insertion.
\<close>

record state =
  analyzer :: bool
  analyses :: "Analysis list"

definition configure_dspy :: "state \<Rightarrow> state" where
  "configure_dspy st = st\<lparr>analyzer := True\<rparr>"

text \<open>
  The identifier of a new row is assigned by the database. The column is an integer
  primary key of SQLite without \<open>AUTOINCREMENT\<close>: 1 in an empty table, else one more than
  the largest identifier in use; once that is the largest 64-bit integer, the first of
  the candidates drawn at random that is not in use, and the insert fails when all of
  them are.
\<close>

definition max_rowid :: int where
  "max_rowid = 9223372036854775807"

fun largest_id :: "Analysis list \<Rightarrow> int" where
  "largest_id [] = 0"
| "largest_id [r] = row_id r"
| "largest_id (r # r' # rs) = max (row_id r) (largest_id (r' # rs))"

definition new_rowid :: "env \<Rightarrow> Analysis list \<Rightarrow> exn + int" where
  "new_rowid env rows =
     (if rows = [] then Inr 1
      else if largest_id rows < max_rowid then Inr (largest_id rows + 1)
      else case find (\<lambda>v. v \<notin> set (map row_id rows)) (random_rowids env (map row_id rows)) of
             Some v \<Rightarrow> Inr v
           | None \<Rightarrow> Inl (OperationalError (operational_error_str env)))"

definition analyze_text :: "env \<Rightarrow> state \<Rightarrow> string \<Rightarrow> exn + ExtractedMetadata" where
  "analyze_text env st text =
     (if text = [] \<or> strip text = [] then Inl (ValueError ''Text cannot be empty'')
      else if \<not> analyzer st then
        Inl (ValueError ''DSPy not configured. Call configure_dspy() before analyzing text.'')
      else case forward env text of
             Inr m \<Rightarrow> Inr m
           | Inl e \<Rightarrow>
               (if contains (str_exn e) ''API'' \<or> contains (lower (str_exn e)) ''rate''
                then Inl (RuntimeError (''LLM API error: '' @ str_exn e))
                else Inl e))"

section \<open>Serialisation of a list of strings (json.dumps)\<close>

definition hex4 :: "nat \<Rightarrow> string" where
  "hex4 n = map (\<lambda>i. ''0123456789abcdef'' ! ((n div 16 ^ i) mod 16)) [3, 2, 1, 0]"

definition json_escape_char :: "char \<Rightarrow> string" where
  \<comment> \<open>\<open>ensure_ascii\<close>: the quote, the backslash and every character outside space..tilde\<close>
  "json_escape_char c =
     (if c = CHR 0x22 then [CHR 0x5C, CHR 0x22]
      else if c = CHR 0x5C then [CHR 0x5C, CHR 0x5C]
      else if c = CHR 0x0A then [CHR 0x5C, CHR ''n'']
      else if c = CHR 0x0D then [CHR 0x5C, CHR ''r'']
      else if c = CHR 0x09 then [CHR 0x5C, CHR ''t'']
      else if c = CHR 0x08 then [CHR 0x5C, CHR ''b'']
      else if c = CHR 0x0C then [CHR 0x5C, CHR ''f'']
      else if (of_char c :: nat) < 32 \<or> 126 < (of_char c :: nat)
        then [CHR 0x5C, CHR ''u''] @ hex4 (of_char c)
      else [c])"

definition json_dumps_str :: "string \<Rightarrow> string" where
  "json_dumps_str s = [CHR 0x22] @ concat (map json_escape_char s) @ [CHR 0x22]"

fun join :: "string \<Rightarrow> string list \<Rightarrow> string" where
  "join sep [] = []"
| "join sep [x] = x"
| "join sep (x # y # ys) = x @ sep @ join sep (y # ys)"

definition json_dumps :: "string list \<Rightarrow> string" where
  "json_dumps xs = ''['' @ join '', '' (map json_dumps_str xs) @ '']''"

section \<open>Request handlers (main.py)\<close>

record AnalysisResponse =
  r_id :: int
  r_summary :: string
  r_title :: "string option"
  r_topics :: "string list"
  r_sentiment :: string
  r_keywords :: "string list"
  r_confidence :: real
  r_created_at :: int

datatype response = Created AnalysisResponse | HTTPException nat string

fun status_code :: "response \<Rightarrow> nat" where
  "status_code (Created r) = 201"
| "status_code (HTTPException c d) = c"

definition http_error :: "exn \<Rightarrow> response" where
  \<comment> \<open>the three \<open>except\<close> clauses of \<open>analyze\<close>, in their order\<close>
  "http_error e =
     (if is_ValueError e then HTTPException 400 (str_exn e)
      else if is_RuntimeError e then
        HTTPException 503 (''Service temporarily unavailable: '' @ str_exn e)
      else HTTPException 503 (''Internal error: '' @ str_exn e))"

definition AnalysisResponse_of :: "env \<Rightarrow> Analysis \<Rightarrow> exn + AnalysisResponse" where
  "AnalysisResponse_of env r =
     (case json_loads env (topics r) of
        Inl m \<Rightarrow> Inl (JSONDecodeError m)
      | Inr jt \<Rightarrow>
          (case json_loads env (keywords_col r) of
             Inl m \<Rightarrow> Inl (JSONDecodeError m)
           | Inr jk \<Rightarrow>
               (case (list_str_field (Some jt), list_str_field (Some jk)) of
                  (Some ts, Some ks) \<Rightarrow>
                    Inr \<lparr>r_id = row_id r, r_summary = summary r, r_title = title r,
                         r_topics = ts, r_sentiment = sentiment r, r_keywords = ks,
                         r_confidence = confidence r, r_created_at = created_at r\<rparr>
                | _ \<Rightarrow> Inl (ValidationError
                            (validation_error_str env (JObj [(''topics'', jt), (''keywords'', jk)]))))))"

definition analyze :: "env \<Rightarrow> state \<Rightarrow> string \<Rightarrow> int \<Rightarrow> response \<times> state" where
  \<comment> \<open>the handler body; \<open>now\<close> is the clock at the insert, and the insert (\<open>db.commit\<close>)
      is where the identifier is assigned or the database refuses the row\<close>
  "analyze env st text now =
     (case extract_keywords (nlp env) text 3 of
        Inl e \<Rightarrow> (http_error e, st)
      | Inr kws \<Rightarrow>
          (case analyze_text env st text of
             Inl e \<Rightarrow> (http_error e, st)
           | Inr metadata \<Rightarrow>
               (case new_rowid env (analyses st) of
                  Inl e \<Rightarrow> (http_error e, st)
                | Inr i \<Rightarrow>
                    (let analysis = \<lparr>row_id = i, raw_text = text,
                                     summary = m_summary metadata, title = m_title metadata,
                                     topics = json_dumps (m_topics metadata),
                                     sentiment = m_sentiment metadata,
                                     keywords_col = json_dumps kws,
                                     confidence = m_confidence metadata, created_at = now\<rparr>;
                         st' = st\<lparr>analyses := analyses st @ [analysis]\<rparr>
                     in case AnalysisResponse_of env analysis of
                          Inl e \<Rightarrow> (http_error e, st')
                        | Inr r \<Rightarrow> (Created r, st')))))"

definition post_analyze :: "env \<Rightarrow> state \<Rightarrow> string \<Rightarrow> int \<Rightarrow> response \<times> state" where
  \<comment> \<open>\<open>POST /analyze\<close>: the request model (\<open>min_length=1\<close>), then the handler\<close>
  "post_analyze env st text now =
     (if text = [] then (HTTPException 422 ''String should have at least 1 character'', st)
      else analyze env st text now)"


fun like :: "string \<Rightarrow> string \<Rightarrow> bool" where
  \<comment> \<open>\<open>like s pat\<close> is SQLite's \<open>s LIKE pat\<close>: \<open>%\<close> matches any run of characters,
      \<open>_\<close> any one character, a letter A to Z matches in either case\<close>
  "like s [] = (s = [])"
| "like s (p # ps) =
     (if p = CHR ''%'' then
        (like s ps \<or> (case s of [] \<Rightarrow> False | c # cs \<Rightarrow> like cs (p # ps)))
      else (case s of
              [] \<Rightarrow> False
            | c # cs \<Rightarrow> (p = CHR ''_'' \<or> ascii_lower_char p = ascii_lower_char c) \<and> like cs ps))"

definition order_by_created_at_desc :: "Analysis list \<Rightarrow> Analysis list" where
  \<comment> \<open>SQL leaves the order of rows of equal \<open>created_at\<close> open; SQLite reads the index on
      \<open>created_at\<close> backwards and returns them latest insert first\<close>
  "order_by_created_at_desc rows = rev (sort_key created_at rows)"

definition search_query :: "state \<Rightarrow> string option \<Rightarrow> Analysis list" where
  \<comment> \<open>the query of \<open>search\<close>: \<open>results\<close>\<close>
  "search_query st topic =
     (let query =
        (case topic of
           None \<Rightarrow> analyses st
         | Some t \<Rightarrow>
             (if t = [] then analyses st
              else (let search_term = ''%'' @ lower t @ ''%''
                    in filter (\<lambda>r. like (topics r) search_term \<or> like (keywords_col r) search_term)
                         (analyses st))))
      in order_by_created_at_desc query)"

record SearchResponse =
  results :: "AnalysisResponse list"
  count :: int

fun responses_of :: "env \<Rightarrow> Analysis list \<Rightarrow> exn + AnalysisResponse list" where
  "responses_of env [] = Inr []"
| "responses_of env (r # rs) =
     (case AnalysisResponse_of env r of
        Inl e \<Rightarrow> Inl e
      | Inr x \<Rightarrow> (case responses_of env rs of Inl e \<Rightarrow> Inl e | Inr xs \<Rightarrow> Inr (x # xs)))"

definition search :: "env \<Rightarrow> state \<Rightarrow> string option \<Rightarrow> exn + SearchResponse" where
  "search env st topic =
     (case responses_of env (search_query st topic) of
        Inl e \<Rightarrow> Inl e
      | Inr response_list \<Rightarrow>
          Inr \<lparr>results = response_list, count = int (length response_list)\<rparr>)"

section \<open>Concrete collaborators for the examples\<close>

definition tok :: "string \<Rightarrow> string \<Rightarrow> token" where
  "tok w p = \<lparr>tok_text = w, tok_lemma = w, tok_pos = p,
             is_stop = False, is_punct = False, is_alpha = True\<rparr>"

definition demo_doc :: "token list" where
  "demo_doc = [tok ''zebra'' ''NOUN'', tok ''ran'' ''VERB'', tok ''ant'' ''NOUN'',
               tok ''bee'' ''PROPN'', tok ''ox'' ''NOUN'', tok ''ant'' ''NOUN'']"

definition demo_nlp :: "string \<Rightarrow> exn + token list" where
  "demo_nlp s = Inr demo_doc"

definition failing_nlp :: "string \<Rightarrow> exn + token list" where
  \<comment> \<open>spaCy's error for a text longer than \<open>nlp.max_length\<close>\<close>
  "failing_nlp s = Inl (ValueError ''[E088] Text of length 1000001 exceeds maximum of 1000000.'')"

definition demo_text :: string where
  "demo_text = ''Zebra ran ant bee ox ant''"

definition demo_payload :: string where
  \<open>demo_payload = ''{"summary": "Animals ran.", "title": null, "topics": ["animals", "running", "nature"], "sentiment": "neutral", "confidence": 0.9}''\<close>

definition demo_json :: json where
  "demo_json = JObj [(''summary'', JStr ''Animals ran.''), (''title'', JNull),
                     (''topics'', JArr [JStr ''animals'', JStr ''running'', JStr ''nature'']),
                     (''sentiment'', JStr ''neutral''), (''confidence'', JFloat (9 / 10))]"

definition short_payload :: string where
  \<open>short_payload = ''{"summary": "Animals ran.", "title": null, "topics": ["animals", "running"], "sentiment": "mixed", "confidence": 1.5}''\<close>

definition short_json :: json where
  "short_json = JObj [(''summary'', JStr ''Animals ran.''), (''title'', JNull),
                      (''topics'', JArr [JStr ''animals'', JStr ''running'']),
                      (''sentiment'', JStr ''mixed''), (''confidence'', JFloat (3 / 2))]"

definition demo_loads :: "string \<Rightarrow> string + json" where
  \<comment> \<open>\<open>json.loads\<close> on the texts of the examples; any other text is taken as no JSON\<close>
  "demo_loads s =
     (if s = demo_payload then Inr demo_json
      else if s = short_payload then Inr short_json
      else if s = ''{}'' then Inr (JObj [])
      else case find (\<lambda>xs. json_dumps xs = s)
                  [[], [''animals'', ''running'', ''nature''], [''animals'', ''running''],
                   [''ant'', ''zebra'', ''bee'']] of
             Some xs \<Rightarrow> Inr (JArr (map JStr xs))
           | None \<Rightarrow> Inl ''Expecting value: line 1 column 1 (char 0)'')"

definition demo_env :: "(string \<Rightarrow> exn + token list) \<Rightarrow> (string \<Rightarrow> exn + string) \<Rightarrow> env" where
  "demo_env tagger llm =
     \<lparr>nlp = tagger, llm_extract = llm, json_loads = demo_loads,
      float_of_str = (\<lambda>s. None),
      float_of_int = (\<lambda>i. if \<bar>i\<bar> \<le> 9007199254740992 then Some (of_int i) else None),
      validation_error_str = (\<lambda>j. ''validation error for ExtractedMetadata''),
      random_rowids = (\<lambda>ids. if 7 \<in> set ids then [3] else [7]),
      operational_error_str = ''(sqlite3.OperationalError) database or disk is full''\<rparr>"

definition demo_llm :: "string \<Rightarrow> exn + string" where
  "demo_llm t = Inr demo_payload"

definition short_llm :: "string \<Rightarrow> exn + string" where
  \<comment> \<open>a model that answers with two topics, the sentiment mixed and the confidence 1.5\<close>
  "short_llm t = Inr short_payload"

definition garbled_llm :: "string \<Rightarrow> exn + string" where
  \<comment> \<open>a model that answers with text that is no JSON\<close>
  "garbled_llm t = Inr ''not json''"

definition empty_object_llm :: "string \<Rightarrow> exn + string" where
  \<comment> \<open>a model that answers with a JSON object without the fields\<close>
  "empty_object_llm t = Inr ''{}''"

definition array_llm :: "string \<Rightarrow> exn + string" where
  \<comment> \<open>a model that answers with a JSON array\<close>
  "array_llm t = Inr ''[]''"

definition short_response :: AnalysisResponse where
  "short_response =
     \<lparr>r_id = 1, r_summary = ''Animals ran.'', r_title = None,
      r_topics = [''animals'', ''running''], r_sentiment = ''mixed'',
      r_keywords = [''ant'', ''zebra'', ''bee''], r_confidence = 3 / 2, r_created_at = 100\<rparr>"

definition started :: state where
  \<comment> \<open>after \<open>startup_event\<close> on a new database\<close>
  "started = configure_dspy \<lparr>analyzer = False, analyses = []\<rparr>"

definition unconfigured :: state where
  "unconfigured = \<lparr>analyzer = False, analyses = []\<rparr>"


definition ai_row :: Analysis where
  "ai_row = \<lparr>row_id = 1, raw_text = ''AI helps.'', summary = ''AI helps.'', title = None,
             topics = json_dumps [''ai''], sentiment = ''positive'',
             keywords_col = json_dumps [], confidence = 9 / 10, created_at = 100\<rparr>"

section \<open>The filter of the keyword extractor, in the words of the specification\<close>

definition keep_spec :: "token \<Rightarrow> bool" where
  "keep_spec t = ((tok_pos t = ''NOUN'' \<or> tok_pos t = ''PROPN'')
                  \<and> \<not> is_stop t \<and> \<not> is_punct t
                  \<and> 2 < length (tok_text t) \<and> is_alpha t)"

section \<open>Properties of the keyword extractor\<close>

lemma strip_empty_iff: "strip s = [] \<longleftrightarrow> (\<forall>c \<in> set s. py_isspace c)"
proof
  assume "strip s = []"
  then have "dropWhile py_isspace (rev (dropWhile py_isspace s)) = []"
    by (simp add: strip_def)
  then have "\<forall>c \<in> set (dropWhile py_isspace s). py_isspace c"
    by simp
  moreover have "dropWhile py_isspace s = [] \<or> \<not> py_isspace (hd (dropWhile py_isspace s))"
    using hd_dropWhile by blast
  ultimately have "dropWhile py_isspace s = []"
    by (cases "dropWhile py_isspace s") auto
  then show "\<forall>c \<in> set s. py_isspace c"
    by simp
next
  assume "\<forall>c \<in> set s. py_isspace c"
  then have d: "dropWhile py_isspace s = []"
    by simp
  show "strip s = []"
    unfolding strip_def d by simp
qed

lemma counter_incr_keys:
  "map fst (counter_incr w c) = (if w \<in> fst ` set c then map fst c else map fst c @ [w])"
  by (induction c) (auto simp: rev_image_eqI)

lemma counter_get_incr:
  "counter_get (counter_incr w c) x = counter_get c x + (if x = w then 1 else 0)"
  by (induction c) (auto simp: counter_get_def)

lemma Counter_snoc: "Counter (ws @ [w]) = counter_incr w (Counter ws)"
  by (simp add: Counter_def)

lemma counter_get_Counter: "counter_get (Counter ws) x = count_list ws x"
proof (induction ws rule: rev_induct)
  case Nil
  show ?case by (simp add: Counter_def counter_get_def)
next
  case (snoc w ws)
  then show ?case by (simp add: Counter_snoc counter_get_incr)
qed

lemma counter_incr_keyset: "fst ` set (counter_incr w c) = insert w (fst ` set c)"
proof -
  have "set (map fst (counter_incr w c)) = insert w (set (map fst c))"
    unfolding counter_incr_keys by auto
  then show ?thesis by simp
qed

lemma keys_Counter: "fst ` set (Counter ws) = set ws"
proof (induction ws rule: rev_induct)
  case Nil
  show ?case by (simp add: Counter_def)
next
  case (snoc w ws)
  then show ?case by (simp add: Counter_snoc counter_incr_keyset)
qed

lemma distinct_keys_Counter: "distinct (map fst (Counter ws))"
proof (induction ws rule: rev_induct)
  case Nil
  show ?case by (simp add: Counter_def)
next
  case (snoc w ws)
  then show ?case by (simp add: Counter_snoc counter_incr_keys)
qed

lemma Counter_entry:
  assumes "(w, k) \<in> set (Counter ws)"
  shows "k = count_list ws w"
proof -
  have "map_of (Counter ws) w = Some k"
    using assms distinct_keys_Counter by simp
  then have "counter_get (Counter ws) w = k"
    by (simp add: counter_get_def)
  then show ?thesis
    by (simp add: counter_get_Counter)
qed

lemma first_seen_snoc_old: "a \<in> set ws \<Longrightarrow> first_seen (ws @ [w]) a = first_seen ws a"
  by (simp add: first_seen_def takeWhile_append1)

lemma first_seen_snoc_new: "w \<notin> set ws \<Longrightarrow> first_seen (ws @ [w]) w = length ws"
  unfolding first_seen_def by (induction ws) auto

lemma first_seen_less: "a \<in> set ws \<Longrightarrow> first_seen ws a < length ws"
  unfolding first_seen_def by (induction ws) auto

lemma keys_Counter_first_seen:
  "sorted_wrt (\<lambda>a b. first_seen ws a < first_seen ws b) (map fst (Counter ws))"
proof (induction ws rule: rev_induct)
  case Nil
  show ?case by (simp add: Counter_def)
next
  case (snoc w ws)
  have old: "sorted_wrt (\<lambda>a b. first_seen (ws @ [w]) a < first_seen (ws @ [w]) b) (map fst (Counter ws))"
    using snoc
    by (rule sorted_wrt_mono_rel[rotated]) (simp add: keys_Counter first_seen_snoc_old)
  show ?case
  proof (cases "w \<in> set ws")
    case True
    then show ?thesis using old by (simp add: Counter_snoc counter_incr_keys keys_Counter)
  next
    case False
    then have "\<forall>a \<in> fst ` set (Counter ws). first_seen (ws @ [w]) a < first_seen (ws @ [w]) w"
      by (simp add: keys_Counter first_seen_snoc_old first_seen_snoc_new first_seen_less)
    then show ?thesis using old False
      by (simp add: Counter_snoc counter_incr_keys keys_Counter sorted_wrt_append)
  qed
qed

lemma sorted_wrt_insort_key_lex:
  fixes f :: "'a \<Rightarrow> int"
  assumes "sorted_wrt (\<lambda>a b. f a < f b \<or> (f a = f b \<and> Q a b)) ys" and "\<forall>y \<in> set ys. Q x y"
  shows "sorted_wrt (\<lambda>a b. f a < f b \<or> (f a = f b \<and> Q a b)) (insort_key f x ys)"
  using assms
proof (induction ys)
  case Nil
  show ?case by simp
next
  case (Cons y ys)
  show ?case
  proof (cases "f x \<le> f y")
    case True
    have "f x < f z \<or> (f x = f z \<and> Q x z)" if "z \<in> set (y # ys)" for z
    proof -
      have "f y \<le> f z" using Cons.prems(1) that by auto
      moreover have "Q x z" using Cons.prems(2) that by blast
      ultimately show ?thesis using True by linarith
    qed
    then show ?thesis using True Cons.prems(1) by simp
  next
    case False
    have "sorted_wrt (\<lambda>a b. f a < f b \<or> (f a = f b \<and> Q a b)) (insort_key f x ys)"
      using Cons by simp
    then show ?thesis using False Cons.prems(1) by (auto simp: set_insort_key)
  qed
qed

lemma sorted_wrt_sort_key_lex:
  fixes f :: "'a \<Rightarrow> int"
  assumes "sorted_wrt Q xs"
  shows "sorted_wrt (\<lambda>a b. f a < f b \<or> (f a = f b \<and> Q a b)) (sort_key f xs)"
  using assms
proof (induction xs)
  case Nil
  show ?case by simp
next
  case (Cons x xs)
  then show ?case
    by (simp add: sorted_wrt_insort_key_lex)
qed

lemma most_common_order:
  "sorted_wrt (\<lambda>a b. count_list ns a > count_list ns b
                   \<or> (count_list ns a = count_list ns b \<and> first_seen ns a < first_seen ns b))
     (map fst (most_common n (Counter ns)))"
proof -
  let ?f = "\<lambda>(w, k). - int k :: int"
  let ?Q = "\<lambda>p q :: string \<times> nat. first_seen ns (fst p) < first_seen ns (fst q)"
  let ?L = "take (nat n) (sort_key ?f (Counter ns))"
  have "sorted_wrt ?Q (Counter ns)"
    using keys_Counter_first_seen[of ns] by (simp add: sorted_wrt_map)
  then have "sorted_wrt (\<lambda>a b. ?f a < ?f b \<or> (?f a = ?f b \<and> ?Q a b)) (sort_key ?f (Counter ns))"
    by (rule sorted_wrt_sort_key_lex)
  then have lex: "sorted_wrt (\<lambda>a b. ?f a < ?f b \<or> (?f a = ?f b \<and> ?Q a b)) ?L"
    by (rule sorted_wrt_take)
  have cnt: "snd p = count_list ns (fst p)" if "p \<in> set ?L" for p
  proof -
    have "p \<in> set (Counter ns)" using that by (auto dest: in_set_takeD)
    then show ?thesis using Counter_entry[of "fst p" "snd p" ns] by simp
  qed
  have "sorted_wrt (\<lambda>p q. count_list ns (fst p) > count_list ns (fst q)
           \<or> (count_list ns (fst p) = count_list ns (fst q) \<and> first_seen ns (fst p) < first_seen ns (fst q))) ?L"
  proof (rule sorted_wrt_mono_rel[OF _ lex])
    fix p q assume "p \<in> set ?L" "q \<in> set ?L"
      and "?f p < ?f q \<or> (?f p = ?f q \<and> ?Q p q)"
    then show "count_list ns (fst p) > count_list ns (fst q)
           \<or> (count_list ns (fst p) = count_list ns (fst q) \<and> first_seen ns (fst p) < first_seen ns (fst q))"
      using cnt[of p] cnt[of q] by (auto simp: case_prod_beta)
  qed
  then show ?thesis
    by (simp add: most_common_def sorted_wrt_map)
qed

lemma most_common_distinct: "distinct (map fst (most_common n (Counter ns)))"
proof -
  have "distinct (map fst (sort_key (\<lambda>(w, k). - int k) (Counter ns)))"
    using distinct_keys_Counter[of ns]
    by (metis (no_types, lifting) distinct_map distinct_sort set_sort)
  then show ?thesis
    by (simp add: most_common_def take_map[symmetric] distinct_take)
qed

lemma most_common_keys_subset: "set (map fst (most_common n (Counter ns))) \<subseteq> set ns"
proof -
  have "set (most_common n (Counter ns)) \<subseteq> set (Counter ns)"
    by (auto simp: most_common_def dest: in_set_takeD)
  then have "fst ` set (most_common n (Counter ns)) \<subseteq> fst ` set (Counter ns)"
    by blast
  then show ?thesis by (simp add: keys_Counter)
qed

lemma length_Counter: "length (Counter ns) \<le> length ns"
proof -
  have "length (Counter ns) = length (map fst (Counter ns))" by simp
  also have "\<dots> = card (set (map fst (Counter ns)))"
    using distinct_keys_Counter[of ns] by (simp only: distinct_card)
  also have "\<dots> = card (set ns)" by (simp add: keys_Counter)
  also have "\<dots> \<le> length ns" by (rule card_length)
  finally show ?thesis .
qed

lemma most_common_all:
  assumes "int (length ns) \<le> n"
  shows "set (map fst (most_common n (Counter ns))) = set ns"
proof -
  have "length (sort_key (\<lambda>(w, k). - int k) (Counter ns)) \<le> nat n"
    using assms length_Counter[of ns] by simp
  then have "most_common n (Counter ns) = sort_key (\<lambda>(w, k). - int k) (Counter ns)"
    by (simp add: most_common_def)
  then show ?thesis by (simp add: keys_Counter)
qed

lemma count_list_map_filter:
  "count_list (map f (filter P xs)) l = length (filter (\<lambda>t. f t = l \<and> P t) xs)"
  by (induction xs) auto

lemma demo_nouns: "nouns_of demo_doc = [''zebra'', ''ant'', ''bee'', ''ant'']"
  by (simp add: nouns_of_def demo_doc_def tok_def keep_token_def)

lemma demo_keywords: "extract_keywords demo_nlp demo_text 3 = Inr [''ant'', ''zebra'', ''bee'']"
  by (simp add: demo_text_def extract_keywords_def strip_def py_isspace_def demo_nlp_def demo_nouns most_common_def Counter_def)

text \<open>
  Claim C3. The keywords come in the order of descending lemma frequency, and of two
  lemmas of equal frequency the one seen first in the filtered token stream comes first
  (not the alphabetically smaller one).
\<close>

theorem extract_keywords_order:
  assumes "tagger (lower text) = Inr doc" and "extract_keywords tagger text top_n = Inr kws"
  shows "sorted_wrt (\<lambda>a b. count_list (nouns_of doc) a > count_list (nouns_of doc) b
                   \<or> (count_list (nouns_of doc) a = count_list (nouns_of doc) b
                      \<and> first_seen (nouns_of doc) a < first_seen (nouns_of doc) b)) kws"
proof -
  have "kws = [] \<or> kws = map fst (most_common top_n (Counter (nouns_of doc)))"
    using assms by (auto simp: extract_keywords_def Let_def split: if_splits)
  then show ?thesis
    using most_common_order[of "nouns_of doc" top_n] by auto
qed

theorem extract_keywords_order_witness:
  "demo_nlp (lower demo_text) = Inr demo_doc
   \<and> extract_keywords demo_nlp demo_text 3 = Inr [''ant'', ''zebra'', ''bee'']
   \<and> sorted_wrt (\<lambda>a b. count_list (nouns_of demo_doc) a > count_list (nouns_of demo_doc) b
                   \<or> (count_list (nouns_of demo_doc) a = count_list (nouns_of demo_doc) b
                      \<and> first_seen (nouns_of demo_doc) a < first_seen (nouns_of demo_doc) b))
        [''ant'', ''zebra'', ''bee'']"
proof -
  have a: "demo_nlp (lower demo_text) = Inr demo_doc"
    by (simp add: demo_nlp_def)
  show ?thesis
    using a demo_keywords extract_keywords_order[OF a demo_keywords] by simp
qed

text \<open>
  Claim C10. No lemma occurs twice in the result of \<open>extract_keywords\<close>.
\<close>

theorem extract_keywords_distinct:
  assumes "extract_keywords tagger text top_n = Inr kws"
  shows "distinct kws"
proof -
  have "kws = [] \<or> (\<exists>doc. kws = map fst (most_common top_n (Counter (nouns_of doc))))"
    using assms by (auto simp: extract_keywords_def Let_def split: if_splits sum.splits)
  then show ?thesis
    using most_common_distinct by auto
qed

theorem extract_keywords_distinct_witness:
  "extract_keywords demo_nlp demo_text 3 = Inr [''ant'', ''zebra'', ''bee'']
   \<and> distinct [''ant'', ''zebra'', ''bee'']"
  using demo_keywords extract_keywords_distinct[OF demo_keywords] by simp

text \<open>
  Claim C7. On an empty or whitespace-only text \<open>extract_keywords\<close> returns the empty
  list and raises nothing, whatever \<open>top_n\<close> is and whatever the tagger would do.
  Whitespace is what \<open>str.strip()\<close> removes, the no-break space and NEL included.
\<close>

theorem extract_keywords_blank:
  assumes "\<forall>c \<in> set text. py_isspace c"
  shows "extract_keywords tagger text top_n = Inr []"
  using assms by (simp add: extract_keywords_def strip_empty_iff)

theorem extract_keywords_blank_witness:
  "list_all py_isspace [CHR 0x20, CHR 0x09, CHR 0xA0, CHR 0x85, CHR 0x0A]
   \<and> extract_keywords failing_nlp [CHR 0x20, CHR 0x09, CHR 0xA0, CHR 0x85, CHR 0x0A] 3 = Inr []
   \<and> extract_keywords failing_nlp [] 3 = Inr []"
proof -
  have a: "\<forall>c \<in> set [CHR 0x20, CHR 0x09, CHR 0xA0, CHR 0x85, CHR 0x0A]. py_isspace c"
    by (simp add: py_isspace_def)
  have b: "\<forall>c \<in> set ([] :: string). py_isspace c"
    by simp
  show ?thesis
    using a extract_keywords_blank[OF a, of failing_nlp 3] extract_keywords_blank[OF b, of failing_nlp 3]
    by (simp add: list_all_iff)
qed

lemma keep_token_spec: "keep_token t = keep_spec t"
  by (auto simp: keep_token_def keep_spec_def)

lemma set_nouns_of: "set (nouns_of doc) = {tok_lemma t | t. t \<in> set doc \<and> keep_spec t}"
  by (auto simp: nouns_of_def keep_token_spec)

text \<open>
  Claim C4. The lemma of a token is counted if and only if the token is a common or a
  proper noun, no stopword, no punctuation, longer than 2 characters and alphabetic:
  the count of a lemma is the number of such tokens with that lemma, every keyword is
  the lemma of such a token, and with \<open>top_n\<close> large enough every such lemma is a keyword.
\<close>

theorem extract_keywords_filter:
  assumes "tagger (lower text) = Inr doc"
  shows "(\<forall>l. counter_get (Counter (nouns_of doc)) l =
                length (filter (\<lambda>t. tok_lemma t = l \<and> keep_spec t) doc))
       \<and> (\<forall>kws. extract_keywords tagger text top_n = Inr kws \<longrightarrow>
                set kws \<subseteq> {tok_lemma t | t. t \<in> set doc \<and> keep_spec t})
       \<and> (\<not> (\<forall>c \<in> set text. py_isspace c) \<and> int (length doc) \<le> top_n \<longrightarrow>
             (\<exists>kws. extract_keywords tagger text top_n = Inr kws
                  \<and> set kws = {tok_lemma t | t. t \<in> set doc \<and> keep_spec t}))"
proof (intro conjI allI impI)
  fix l
  show "counter_get (Counter (nouns_of doc)) l =
          length (filter (\<lambda>t. tok_lemma t = l \<and> keep_spec t) doc)"
    by (simp add: counter_get_Counter nouns_of_def count_list_map_filter keep_token_spec)
next
  fix kws
  assume ek: "extract_keywords tagger text top_n = Inr kws"
  have "kws = [] \<or> kws = map fst (most_common top_n (Counter (nouns_of doc)))"
    using ek assms by (auto simp: extract_keywords_def Let_def split: if_splits)
  then have "set kws \<subseteq> set (nouns_of doc)"
    using most_common_keys_subset[of top_n "nouns_of doc"] by auto
  then show "set kws \<subseteq> {tok_lemma t | t. t \<in> set doc \<and> keep_spec t}"
    unfolding set_nouns_of .
next
  assume h: "\<not> (\<forall>c \<in> set text. py_isspace c) \<and> int (length doc) \<le> top_n"
  have "text \<noteq> []" "strip text \<noteq> []"
    using h strip_empty_iff[of "text"] by auto
  then have ek: "extract_keywords tagger text top_n =
      Inr (if nouns_of doc = [] then [] else map fst (most_common top_n (Counter (nouns_of doc))))"
    using assms by (simp add: extract_keywords_def Let_def)
  have "length (nouns_of doc) \<le> length doc"
    by (simp add: nouns_of_def)
  then have "int (length (nouns_of doc)) \<le> top_n"
    using h by linarith
  then have "set (map fst (most_common top_n (Counter (nouns_of doc)))) = set (nouns_of doc)"
    by (rule most_common_all)
  then have "set (if nouns_of doc = [] then [] else map fst (most_common top_n (Counter (nouns_of doc))))
               = set (nouns_of doc)"
    by auto
  then show "\<exists>kws. extract_keywords tagger text top_n = Inr kws
                  \<and> set kws = {tok_lemma t | t. t \<in> set doc \<and> keep_spec t}"
    using ek unfolding set_nouns_of by blast
qed

lemma demo_keywords_all:
  "extract_keywords demo_nlp demo_text 6 = Inr [''ant'', ''zebra'', ''bee'']"
  by (simp add: demo_text_def extract_keywords_def strip_def py_isspace_def demo_nlp_def demo_nouns most_common_def Counter_def)

theorem extract_keywords_filter_witness:
  "demo_nlp (lower demo_text) = Inr demo_doc
   \<and> \<not> (\<forall>c \<in> set demo_text. py_isspace c)
   \<and> int (length demo_doc) \<le> 6
   \<and> extract_keywords demo_nlp demo_text 6 = Inr [''ant'', ''zebra'', ''bee'']
   \<and> counter_get (Counter (nouns_of demo_doc)) ''ant'' = 2
   \<and> length (filter (\<lambda>t. tok_lemma t = ''ant'' \<and> keep_spec t) demo_doc) = 2
   \<and> counter_get (Counter (nouns_of demo_doc)) ''ox'' = 0
   \<and> {tok_lemma t | t. t \<in> set demo_doc \<and> keep_spec t} = set [''ant'', ''zebra'', ''bee'']"
proof -
  have a: "demo_nlp (lower demo_text) = Inr demo_doc"
    by (simp add: demo_nlp_def)
  have b: "\<not> (\<forall>c \<in> set demo_text. py_isspace c)"
    by (simp add: demo_text_def py_isspace_def)
  have c: "int (length demo_doc) \<le> 6"
    by (simp add: demo_doc_def)
  note th = extract_keywords_filter[of demo_nlp demo_text demo_doc 6, OF a]
  have d: "counter_get (Counter (nouns_of demo_doc)) ''ant'' = 2"
    by (simp add: demo_nouns Counter_def counter_get_def)
  have e: "counter_get (Counter (nouns_of demo_doc)) ''ox'' = 0"
    by (simp add: demo_nouns Counter_def counter_get_def)
  have f: "length (filter (\<lambda>t. tok_lemma t = ''ant'' \<and> keep_spec t) demo_doc) = 2"
    using th d by simp
  have g: "{tok_lemma t | t. t \<in> set demo_doc \<and> keep_spec t} = set [''ant'', ''zebra'', ''bee'']"
    using th b c demo_keywords_all by auto
  show ?thesis
    using a b c d e f g demo_keywords_all by blast
qed

section \<open>Properties of the request handlers\<close>

lemma http_error_status: "status_code (http_error e) = 400 \<or> status_code (http_error e) = 503"
  by (simp add: http_error_def)

lemma analyze_keywords_fail:
  "extract_keywords (nlp env) text 3 = Inl e \<Longrightarrow> analyze env st text now = (http_error e, st)"
  by (simp add: analyze_def)

lemma analyze_metadata_fail:
  "extract_keywords (nlp env) text 3 = Inr kws \<Longrightarrow> analyze_text env st text = Inl e \<Longrightarrow>
     analyze env st text now = (http_error e, st)"
  by (simp add: analyze_def)

lemma analyze_insert_fail:
  "extract_keywords (nlp env) text 3 = Inr kws \<Longrightarrow> analyze_text env st text = Inr m \<Longrightarrow>
     new_rowid env (analyses st) = Inl e \<Longrightarrow> analyze env st text now = (http_error e, st)"
  by (simp add: analyze_def)

lemma analyze_persist:
  assumes "extract_keywords (nlp env) text 3 = Inr kws" and "analyze_text env st text = Inr m"
    and "new_rowid env (analyses st) = Inr i"
  shows "snd (analyze env st text now) =
           st\<lparr>analyses := analyses st @ [\<lparr>row_id = i, raw_text = text,
                             summary = m_summary m, title = m_title m,
                             topics = json_dumps (m_topics m), sentiment = m_sentiment m,
                             keywords_col = json_dumps kws, confidence = m_confidence m,
                             created_at = now\<rparr>]\<rparr>"
  using assms by (simp add: analyze_def Let_def split: sum.split)

lemma analyze_failure:
  assumes "extract_keywords (nlp env) text 3 = Inl e \<or> analyze_text env st text = Inl e
           \<or> new_rowid env (analyses st) = Inl e"
  shows "\<exists>e'. analyze env st text now = (http_error e', st)"
proof (cases "extract_keywords (nlp env) text 3")
  case (Inl a)
  then show ?thesis using analyze_keywords_fail by blast
next
  case kw: (Inr kws)
  show ?thesis
  proof (cases "analyze_text env st text")
    case (Inl a)
    then show ?thesis using kw analyze_metadata_fail by blast
  next
    case (Inr m)
    then have "new_rowid env (analyses st) = Inl e" using assms kw by simp
    then show ?thesis using kw Inr analyze_insert_fail by blast
  qed
qed

lemma analyze_rows:
  "analyses (snd (analyze env st text now)) = analyses st
   \<or> (\<exists>kws m i. extract_keywords (nlp env) text 3 = Inr kws \<and> analyze_text env st text = Inr m
        \<and> new_rowid env (analyses st) = Inr i
        \<and> analyses (snd (analyze env st text now)) =
            analyses st @ [\<lparr>row_id = i, raw_text = text,
                             summary = m_summary m, title = m_title m,
                             topics = json_dumps (m_topics m), sentiment = m_sentiment m,
                             keywords_col = json_dumps kws, confidence = m_confidence m,
                             created_at = now\<rparr>])"
proof (cases "extract_keywords (nlp env) text 3")
  case (Inl e)
  then show ?thesis by (simp add: analyze_keywords_fail)
next
  case kw: (Inr kws)
  show ?thesis
  proof (cases "analyze_text env st text")
    case (Inl e)
    then show ?thesis using kw by (simp add: analyze_metadata_fail)
  next
    case md: (Inr m)
    show ?thesis
    proof (cases "new_rowid env (analyses st)")
      case (Inl e)
      then show ?thesis using kw md by (simp add: analyze_insert_fail)
    next
      case (Inr i)
      have "analyses (snd (analyze env st text now)) =
              analyses st @ [\<lparr>row_id = i, raw_text = text,
                               summary = m_summary m, title = m_title m,
                               topics = json_dumps (m_topics m), sentiment = m_sentiment m,
                               keywords_col = json_dumps kws, confidence = m_confidence m,
                               created_at = now\<rparr>]"
        by (simp add: analyze_persist[OF kw md Inr])
      then show ?thesis using kw md Inr by blast
    qed
  qed
qed

text \<open>
  Claim C2. When keyword extraction or metadata extraction fails, the request ends with
  an error status and the state, the record store in it, is as before; so it is when the
  database refuses the insert. In every case the store is unchanged or has one more row,
  all of whose columns are filled from the text, the keywords, the metadata and the
  identifier the database assigned. (Building the row itself cannot fail.)
\<close>

theorem analyze_all_or_nothing:
  "(extract_keywords (nlp env) text 3 = Inl e \<or> analyze_text env st text = Inl e \<longrightarrow>
      snd (post_analyze env st text now) = st
      \<and> status_code (fst (post_analyze env st text now)) \<noteq> 201)
   \<and> (analyses (snd (post_analyze env st text now)) = analyses st
      \<or> (\<exists>kws m i. extract_keywords (nlp env) text 3 = Inr kws \<and> analyze_text env st text = Inr m
           \<and> new_rowid env (analyses st) = Inr i
           \<and> analyses (snd (post_analyze env st text now)) =
               analyses st @ [\<lparr>row_id = i, raw_text = text,
                                summary = m_summary m, title = m_title m,
                                topics = json_dumps (m_topics m), sentiment = m_sentiment m,
                                keywords_col = json_dumps kws, confidence = m_confidence m,
                                created_at = now\<rparr>]))
   \<and> (new_rowid env (analyses st) = Inl e \<longrightarrow>
      snd (post_analyze env st text now) = st
      \<and> status_code (fst (post_analyze env st text now)) \<noteq> 201)"
proof -
  have fail: "snd (post_analyze env st text now) = st
      \<and> status_code (fst (post_analyze env st text now)) \<noteq> 201"
    if a: "extract_keywords (nlp env) text 3 = Inl e \<or> analyze_text env st text = Inl e
           \<or> new_rowid env (analyses st) = Inl e"
  proof -
    obtain e' where e': "analyze env st text now = (http_error e', st)"
      using a analyze_failure by blast
    have "status_code (http_error e') \<noteq> 201"
      using http_error_status[of e'] by auto
    then show ?thesis
      using e' by (simp add: post_analyze_def)
  qed
  have rows: "analyses (snd (post_analyze env st text now)) = analyses st
      \<or> (\<exists>kws m i. extract_keywords (nlp env) text 3 = Inr kws \<and> analyze_text env st text = Inr m
           \<and> new_rowid env (analyses st) = Inr i
           \<and> analyses (snd (post_analyze env st text now)) =
               analyses st @ [\<lparr>row_id = i, raw_text = text,
                                summary = m_summary m, title = m_title m,
                                topics = json_dumps (m_topics m), sentiment = m_sentiment m,
                                keywords_col = json_dumps kws, confidence = m_confidence m,
                                created_at = now\<rparr>])"
  proof (cases "text = []")
    case True
    then show ?thesis by (simp add: post_analyze_def)
  next
    case False
    then have "post_analyze env st text now = analyze env st text now"
      by (simp add: post_analyze_def)
    then show ?thesis using analyze_rows[of env st "text" now] by simp
  qed
  from fail rows show ?thesis by blast
qed

theorem analyze_all_or_nothing_witness:
  "extract_keywords (nlp (demo_env failing_nlp demo_llm)) demo_text 3 =
     Inl (ValueError ''[E088] Text of length 1000001 exceeds maximum of 1000000.'')
   \<and> snd (post_analyze (demo_env failing_nlp demo_llm) started demo_text 100) = started
   \<and> status_code (fst (post_analyze (demo_env failing_nlp demo_llm) started demo_text 100)) \<noteq> 201
   \<and> analyze_text (demo_env demo_nlp garbled_llm) started demo_text =
     Inl (ValueError ''Failed to parse LLM response as JSON: Expecting value: line 1 column 1 (char 0)'')
   \<and> snd (post_analyze (demo_env demo_nlp garbled_llm) started demo_text 100) = started
   \<and> status_code (fst (post_analyze (demo_env demo_nlp garbled_llm) started demo_text 100)) \<noteq> 201
   \<and> length (analyses (snd (post_analyze (demo_env demo_nlp demo_llm) started demo_text 100))) = 1"
proof -
  have a: "extract_keywords (nlp (demo_env failing_nlp demo_llm)) demo_text 3 =
     Inl (ValueError ''[E088] Text of length 1000001 exceeds maximum of 1000000.'')"
    by code_simp
  have b: "analyze_text (demo_env demo_nlp garbled_llm) started demo_text =
     Inl (ValueError ''Failed to parse LLM response as JSON: Expecting value: line 1 column 1 (char 0)'')"
    by code_simp
  have c: "length (analyses (snd (post_analyze (demo_env demo_nlp demo_llm) started demo_text 100))) = 1"
    by code_simp
  from a analyze_all_or_nothing[of "demo_env failing_nlp demo_llm" demo_text
      "ValueError ''[E088] Text of length 1000001 exceeds maximum of 1000000.''" started 100]
  have d: "snd (post_analyze (demo_env failing_nlp demo_llm) started demo_text 100) = started
   \<and> status_code (fst (post_analyze (demo_env failing_nlp demo_llm) started demo_text 100)) \<noteq> 201"
    by blast
  from b analyze_all_or_nothing[of "demo_env demo_nlp garbled_llm" demo_text
      "ValueError ''Failed to parse LLM response as JSON: Expecting value: line 1 column 1 (char 0)''" started 100]
  have e: "snd (post_analyze (demo_env demo_nlp garbled_llm) started demo_text 100) = started
   \<and> status_code (fst (post_analyze (demo_env demo_nlp garbled_llm) started demo_text 100)) \<noteq> 201"
    by blast
  from a b c d e show ?thesis by blast
qed

lemma analyze_text_unconfigured_value:
  assumes "\<not> analyzer st"
  shows "analyze_text env st text =
           Inl (ValueError (if text = [] \<or> strip text = [] then ''Text cannot be empty''
                            else ''DSPy not configured. Call configure_dspy() before analyzing text.''))"
  using assms by (simp add: analyze_text_def)

text \<open>
  Claim C8. Before \<open>configure_dspy\<close>, \<open>analyze_text\<close> on a non-empty text raises a
  \<open>ValueError\<close>, the class the handler answers with status 400 and not 503; for a text
  that is not blank it is the error of the missing configuration, and the request handler
  answers 400 when the keywords were extracted.
\<close>

theorem analyze_text_unconfigured:
  assumes "\<not> analyzer st" and "text \<noteq> []"
  shows "\<exists>m. analyze_text env st text = Inl (ValueError m)
           \<and> http_error (ValueError m) = HTTPException 400 m
           \<and> (strip text \<noteq> [] \<longrightarrow>
                 m = ''DSPy not configured. Call configure_dspy() before analyzing text.'')
           \<and> (\<forall>kws. extract_keywords (nlp env) text 3 = Inr kws \<longrightarrow>
                 post_analyze env st text now = (HTTPException 400 m, st))"
proof -
  let ?m = "if text = [] \<or> strip text = [] then ''Text cannot be empty''
            else ''DSPy not configured. Call configure_dspy() before analyzing text.''"
  have a: "analyze_text env st text = Inl (ValueError ?m)"
    using assms(1) by (rule analyze_text_unconfigured_value)
  have b: "http_error (ValueError ?m) = HTTPException 400 ?m"
    by (simp add: http_error_def)
  have c: "strip text \<noteq> [] \<longrightarrow>
             ?m = ''DSPy not configured. Call configure_dspy() before analyzing text.''"
    using assms(2) by simp
  have d: "post_analyze env st text now = (HTTPException 400 ?m, st)"
    if "extract_keywords (nlp env) text 3 = Inr kws" for kws
  proof -
    have "analyze env st text now = (http_error (ValueError ?m), st)"
      using that a by (rule analyze_metadata_fail)
    then show ?thesis
      using assms(2) b by (simp add: post_analyze_def)
  qed
  from a b c d show ?thesis by blast
qed

theorem analyze_text_unconfigured_witness:
  "\<not> analyzer unconfigured \<and> demo_text \<noteq> []
   \<and> analyze_text (demo_env demo_nlp demo_llm) unconfigured demo_text =
       Inl (ValueError ''DSPy not configured. Call configure_dspy() before analyzing text.'')
   \<and> post_analyze (demo_env demo_nlp demo_llm) unconfigured demo_text 100 =
       (HTTPException 400 ''DSPy not configured. Call configure_dspy() before analyzing text.'',
        unconfigured)"
proof -
  have a: "\<not> analyzer unconfigured" by (simp add: unconfigured_def)
  have b: "demo_text \<noteq> []" by (simp add: demo_text_def)
  have c: "strip demo_text \<noteq> []" by code_simp
  have d: "extract_keywords (nlp (demo_env demo_nlp demo_llm)) demo_text 3 = Inr [''ant'', ''zebra'', ''bee'']"
    by code_simp
  from analyze_text_unconfigured[OF a b, of "demo_env demo_nlp demo_llm" 100]
  obtain m where m: "analyze_text (demo_env demo_nlp demo_llm) unconfigured demo_text = Inl (ValueError m)"
    "strip demo_text \<noteq> [] \<longrightarrow> m = ''DSPy not configured. Call configure_dspy() before analyzing text.''"
    "\<forall>kws. extract_keywords (nlp (demo_env demo_nlp demo_llm)) demo_text 3 = Inr kws \<longrightarrow>
       post_analyze (demo_env demo_nlp demo_llm) unconfigured demo_text 100 = (HTTPException 400 m, unconfigured)"
    by blast
  have m_eq: "m = ''DSPy not configured. Call configure_dspy() before analyzing text.''"
    using m(2) c by blast
  have "post_analyze (demo_env demo_nlp demo_llm) unconfigured demo_text 100 = (HTTPException 400 m, unconfigured)"
    using m(3) d by blast
  then show ?thesis using a b m(1) unfolding m_eq by blast
qed











section \<open>Where the handlers differ from their documentation\<close>

text \<open>
  Claim C1. A model answer that is no JSON reaches the handler as a \<open>ValueError\<close>, and one
  that is a JSON object without the fields as a pydantic \<open>ValidationError\<close>: both are
  answered with 400, not 503. An answer that is JSON but no object raises a \<open>TypeError\<close>
  and is answered with 503.
\<close>

theorem malformed_payload_status:
  "post_analyze (demo_env demo_nlp garbled_llm) started demo_text 100 =
     (HTTPException 400
        ''Failed to parse LLM response as JSON: Expecting value: line 1 column 1 (char 0)'',
      started)
   \<and> post_analyze (demo_env demo_nlp empty_object_llm) started demo_text 100 =
     (HTTPException 400 ''validation error for ExtractedMetadata'', started)
   \<and> post_analyze (demo_env demo_nlp array_llm) started demo_text 100 =
     (HTTPException 503
        ''Internal error: app.services.llm_service.ExtractedMetadata() argument after ** must be a mapping, not list'',
      started)"
  by code_simp

text \<open>
  Claim C6. \<open>ExtractedMetadata\<close> checks the types of its fields and nothing else: an answer
  of the model with two topics, the sentiment \<open>mixed\<close> and the confidence 1.5 is stored and
  returned with status 201.
\<close>

theorem unvalidated_metadata_accepted:
  "fst (post_analyze (demo_env demo_nlp short_llm) started demo_text 100) = Created short_response
   \<and> status_code (Created short_response) = 201
   \<and> length (r_topics short_response) = 2
   \<and> r_sentiment short_response \<notin> set [''positive'', ''neutral'', ''negative'']
   \<and> 1 < r_confidence short_response"
  by code_simp

text \<open>
  Claim C5. The topic goes into the \<open>LIKE\<close> pattern as it is: the topics \<open>%\<close> and \<open>_\<close>
  select a row whose serialised topics and keywords contain neither character.
\<close>

theorem search_wildcard:
  "search_query \<lparr>analyzer = True, analyses = [ai_row]\<rparr> (Some ''%'') = [ai_row]
   \<and> \<not> contains (lower (topics ai_row)) (lower ''%'')
   \<and> \<not> contains (lower (keywords_col ai_row)) (lower ''%'')
   \<and> search_query \<lparr>analyzer = True, analyses = [ai_row]\<rparr> (Some ''_'') = [ai_row]
   \<and> \<not> contains (lower (topics ai_row)) (lower ''_'')
   \<and> \<not> contains (lower (keywords_col ai_row)) (lower ''_'')
   \<and> search_query \<lparr>analyzer = True, analyses = [ai_row]\<rparr> (Some ''x'') = []"
  by code_simp

end
